theory Spec2Isabelle
  imports Main "HOL-Library.Word"
begin

unbundle bit_operations_syntax

section \<open>Data of the supervisor (init.c and the headers it includes)\<close>

text \<open>
  The headers \<^verbatim>\<open>control.h\<close>, \<^verbatim>\<open>service.h\<close>, \<^verbatim>\<open>spawn.h\<close>, \<^verbatim>\<open>log.h\<close> and
  \<^verbatim>\<open>common.h\<close> are not part of the sources at hand. The enumerations that \<^verbatim>\<open>init.c\<close>
  only switches on or assigns are datatypes. The enumerators it computes with
  (\<^verbatim>\<open>svc->state<<4 | CMD_RESPONSE_STATE\<close>) are integers whose values the headers fix; they
  are the fields of the record \<open>header\<close>, a parameter of every function that uses them.
\<close>

datatype command_type = CMD_START | CMD_STOP | CMD_STATUS | CMD_OTHER nat
  \<comment> \<open>\<open>CMD_OTHER n\<close>: a value of \<^verbatim>\<open>command->type\<close> that matches no \<^verbatim>\<open>case\<close> label\<close>

record control_command_t =
  cmd_type :: command_type
  cmd_name :: string

datatype error_t =
    ERROR_SPAWN_FAILED | ERROR_FD_FAILED | ERROR_SOCKET_FAILED | ERROR_EPOLL_FAILED
  | ERROR_EPOLL_WAIT | ERROR_EPOLL_SIGNAL_MESSAGE | ERROR_EPOLL_SIGNAL
  | ERROR_BOOT_FAILED | ERROR_THREAD_FAILED

datatype status_t = S_OK | S_SOCKET_EOF | S_FAILED
  \<comment> \<open>\<open>S_FAILED\<close>: any status other than the two that \<^verbatim>\<open>init_loop\<close> names\<close>

datatype signal = SIGCHLD | SIGTERM | SIGINT | SIGHUP | SIG_OTHER nat

record signalfd_siginfo =
  ssi_signo :: signal
  ssi_pid :: int

record header =
  STATE_DOWN :: int
  STATE_PENDING_DOWN :: int
  CMD_RESPONSE_OK :: int
  CMD_RESPONSE_FAILED :: int
  CMD_RESPONSE_ERROR :: int
  CMD_RESPONSE_STATE :: int
  CMD_RESPONSE_FAILED_LOOKUP :: int
    \<comment> \<open>a response tag of the protocol that \<^verbatim>\<open>init.c\<close> never names\<close>
  sizeof_control_reponse_t :: nat
    \<comment> \<open>\<^verbatim>\<open>sizeof(control_reponse_t)\<close>, in bytes\<close>

text \<open>
  Conversion of an \<^verbatim>\<open>int\<close> expression to \<^verbatim>\<open>control_reponse_t\<close>: the value is cut to
  the width of the type.
\<close>

definition to_control_reponse_t :: "header \<Rightarrow> int \<Rightarrow> int" where
  "to_control_reponse_t hdr v = take_bit (8 * sizeof_control_reponse_t hdr) v"

subsection \<open>The service registry (service.h)\<close>

record service =
  svc_name :: string
  svc_pid :: int
  svc_state :: int

type_synonym registry = "service list"

text \<open>A \<^verbatim>\<open>struct service *\<close> is the position of the entry in the registry; \<^verbatim>\<open>NULL\<close> is \<open>None\<close>.\<close>

fun find_first :: "('a \<Rightarrow> bool) \<Rightarrow> 'a list \<Rightarrow> nat option" where
  "find_first P [] = None"
| "find_first P (x # xs) = (if P x then Some 0 else map_option Suc (find_first P xs))"

definition service_find_by_name :: "string \<Rightarrow> registry \<Rightarrow> nat option" where
  \<comment> \<open>Modelled from the spec: \<^verbatim>\<open>service_find_by_name\<close> of the absent service registry; the
      entry whose name is the one given, \<^verbatim>\<open>NULL\<close> when no entry matches.\<close>
  "service_find_by_name n reg = find_first (\<lambda>s. svc_name s = n) reg"

definition service_find_by_pid :: "int \<Rightarrow> registry \<Rightarrow> nat option" where
  \<comment> \<open>Modelled from the spec: \<^verbatim>\<open>service_find_by_pid\<close> of the absent service registry; the
      entry the PID is registered to, \<^verbatim>\<open>NULL\<close> for an unknown PID.\<close>
  "service_find_by_pid p reg = find_first (\<lambda>s. svc_pid s = p) reg"

definition service_set_down :: "header \<Rightarrow> nat \<Rightarrow> registry \<Rightarrow> registry" where
  \<comment> \<open>Modelled from the spec: \<^verbatim>\<open>service_set_down\<close> of the absent service registry marks the
      service \<^verbatim>\<open>DOWN\<close>.\<close>
  "service_set_down hdr i reg = reg[i := (reg ! i)\<lparr>svc_state := STATE_DOWN hdr\<rparr>]"

definition service_count_by_state :: "int \<Rightarrow> bool \<Rightarrow> registry \<Rightarrow> nat" where
  \<comment> \<open>Modelled from the spec: \<^verbatim>\<open>service_count_by_state\<close> of the absent service registry;
      called with \<^verbatim>\<open>(STATE_DOWN, TRUE)\<close> it reports the services outstanding, those not
      \<^verbatim>\<open>DOWN\<close>: the flag negates the comparison.\<close>
  "service_count_by_state st negate reg =
     length (filter (\<lambda>s. (svc_state s = st) \<noteq> negate) reg)"

subsection \<open>Calls to the collaborators, in the order they are made\<close>

text \<open>
  What the process does is recorded as it happens: every call to the operating system or
  to a collaborator, and the one store to a variable that two threads share.
\<close>

datatype log_level = LOG_DEBUG | LOG_INFO | LOG_WARNING | LOG_ERROR

datatype log_arg = ARG_INT int | ARG_STR string | ARG_TYPE command_type

datatype call =
    LOG log_level string "log_arg list"
  | SERVICE_START nat
  | SERVICE_STOP nat
  | SERVICE_SET_DOWN nat
  | SERVICE_STOP_ALL
  | SEND int int nat
  | WAITPID int
  | SPAWN1
  | SPAWN2_WAIT string
  | PTHREAD_CREATE
  | PTHREAD_JOIN nat
  | ACCEPT
  | EPOLL_CTL_ADD int
  | EPOLL_CTL_DEL int
  | SHUTDOWN int
  | UNLINK
  | SIGNALFD
  | CONTROL_LISTEN
  | EPOLL_CREATE1
  | EPOLL_WAIT
  | READ_SIGNAL
  | CONTROL_READ_COMMAND int
  | SET_IS_HALTING
    \<comment> \<open>not a call: the store \<^verbatim>\<open>is_halting = TRUE\<close>, which the other thread reads\<close>

subsection \<open>The process state\<close>

text \<open>
  The three file-scope variables of \<^verbatim>\<open>init.c\<close>, the registry, the threads that
  \<^verbatim>\<open>pthread_create\<close> has made (handles are numbered from 1, so that 0 is "no thread"; a
  thread is in \<open>not_started\<close> until it runs its body), and the calls made so far.
\<close>

record globals =
  is_halting :: bool
  boot_pid :: int
  halt_thread :: nat
  services :: registry
  created :: nat
  not_started :: "nat list"
  trace :: "call list"

definition call :: "call \<Rightarrow> globals \<Rightarrow> globals" where
  "call c g = g\<lparr>trace := trace g @ [c]\<rparr>"

definition log_debug :: "string \<Rightarrow> log_arg list \<Rightarrow> globals \<Rightarrow> globals" where
  "log_debug fmt args = call (LOG LOG_DEBUG fmt args)"

definition log_info :: "string \<Rightarrow> log_arg list \<Rightarrow> globals \<Rightarrow> globals" where
  "log_info fmt args = call (LOG LOG_INFO fmt args)"

definition log_warning :: "string \<Rightarrow> log_arg list \<Rightarrow> globals \<Rightarrow> globals" where
  "log_warning fmt args = call (LOG LOG_WARNING fmt args)"

definition log_error :: "string \<Rightarrow> log_arg list \<Rightarrow> globals \<Rightarrow> globals" where
  "log_error fmt args = call (LOG LOG_ERROR fmt args)"

section \<open>init\_handle\_client\_command\<close>

text \<open>
  What the collaborators answer during one call: the result of \<^verbatim>\<open>service_start\<close> or
  \<^verbatim>\<open>service_stop\<close> and what it does to the registry, should one of them be called, and
  the value \<^verbatim>\<open>send\<close> returns.
\<close>

record client_env =
  service_result :: bool
  service_effect :: "registry \<Rightarrow> registry"
  send_result :: int

definition init_handle_client_command ::
  "header \<Rightarrow> client_env \<Rightarrow> control_command_t \<Rightarrow> int \<Rightarrow> globals \<Rightarrow> bool \<times> globals" where
  "init_handle_client_command hdr env command socket g =
    (let ret0 = to_control_reponse_t hdr (CMD_RESPONSE_ERROR hdr);
         (ret, g1) =
           (case service_find_by_name (cmd_name command) (services g) of
              None \<Rightarrow> (ret0, log_warning ''Service %s was not found'' [ARG_STR (cmd_name command)] g)
            | Some svc \<Rightarrow>
                (let g' = log_debug ''cmd type: %d'' [ARG_TYPE (cmd_type command)] g in
                 case cmd_type command of
                   CMD_START \<Rightarrow>
                     if is_halting g' then (ret0, log_warning ''Ignoring service start request'' [] g')
                     else
                       (to_control_reponse_t hdr
                          (if service_result env then CMD_RESPONSE_OK hdr else CMD_RESPONSE_FAILED hdr),
                        (call (SERVICE_START svc) g')\<lparr>services := service_effect env (services g')\<rparr>)
                 | CMD_STOP \<Rightarrow>
                     if is_halting g' then (ret0, log_warning ''Ignoring service stop request'' [] g')
                     else
                       (to_control_reponse_t hdr
                          (if service_result env then CMD_RESPONSE_OK hdr else CMD_RESPONSE_FAILED hdr),
                        (call (SERVICE_STOP svc) g')\<lparr>services := service_effect env (services g')\<rparr>)
                 | CMD_STATUS \<Rightarrow>
                     (let ret = to_control_reponse_t hdr
                            (push_bit 4 (svc_state (services g' ! svc)) OR CMD_RESPONSE_STATE hdr)
                      in (ret, log_debug ''resp: %d'' [ARG_INT ret] g'))
                 | CMD_OTHER n \<Rightarrow> (ret0, g')))
     in (send_result env = int (sizeof_control_reponse_t hdr),
         call (SEND socket ret (sizeof_control_reponse_t hdr)) g1))"

section \<open>Halting\<close>

text \<open>
  A function that may call \<^verbatim>\<open>fatal\<close> or \<^verbatim>\<open>fatal_errno\<close> returns \<open>Inl\<close> with the exit
  code and the state in which the process exits, \<open>Inr\<close> with its value otherwise.
\<close>

type_synonym 'a result = "(error_t \<times> globals) + ('a \<times> globals)"

definition init_apply :: "int \<Rightarrow> globals \<Rightarrow> int result" where
  \<comment> \<open>\<open>apply_pid\<close> is what \<^verbatim>\<open>spawn1(PUPPETIZER_APPLY)\<close> returns\<close>
  "init_apply apply_pid g =
    (let g1 = call SPAWN1 g in
     if apply_pid = - 1 then Inl (ERROR_SPAWN_FAILED, g1) else Inr (apply_pid, g1))"

text \<open>
  What the collaborators answer to \<^verbatim>\<open>init_halt\<close>: the exit code \<^verbatim>\<open>spawn2_wait\<close> returns
  and what \<^verbatim>\<open>service_stop_all\<close> does to the registry.
\<close>

record halt_env =
  spawn2_wait_result :: int
  stop_all_effect :: "registry \<Rightarrow> registry"

definition service_stop_all :: "header \<Rightarrow> halt_env \<Rightarrow> registry \<Rightarrow> nat \<times> registry" where
  \<comment> \<open>Modelled from the spec: \<^verbatim>\<open>service_stop_all\<close> of the absent service registry; it
      returns the count of services that were not in \<^verbatim>\<open>DOWN\<close> state when the stop request
      was issued. What it does to the registry is the parameter \<open>stop_all_effect\<close>.\<close>
  "service_stop_all hdr env reg =
     (service_count_by_state (STATE_DOWN hdr) True reg, stop_all_effect env reg)"

definition init_halt :: "header \<Rightarrow> halt_env \<Rightarrow> globals \<Rightarrow> globals" where
  "init_halt hdr env g =
    (if is_halting g then g
     else
      (let g1 = (call SET_IS_HALTING g)\<lparr>is_halting := True\<rparr>;
           g2 = log_debug ''Running halt action'' [] g1;
           g3 = call (SPAWN2_WAIT ''halt'') g2;
           ret = spawn2_wait_result env;
           g4 = (if ret \<noteq> 0 then log_error ''Puppet halt failed with exitcode %d'' [ARG_INT ret] g3
                 else g3);
           (n, reg) = service_stop_all hdr env (services g4);
           i = (word_of_nat n :: 8 word);
           g5 = (call SERVICE_STOP_ALL g4)\<lparr>services := reg\<rparr>
       in if i > 0 then log_warning ''Stopping %d outstanding services.'' [ARG_INT (uint i)] g5
          else g5))"

definition init_halt_thread :: "int \<Rightarrow> globals \<Rightarrow> unit result" where
  \<comment> \<open>\<open>ret\<close> is what \<^verbatim>\<open>pthread_create\<close> returns; on success the new thread, which will run
      \<^verbatim>\<open>init_halt\<close>, gets the next handle and \<^verbatim>\<open>halt_thread\<close> is overwritten with it\<close>
  "init_halt_thread ret g =
    (let g1 = call PTHREAD_CREATE g in
     if ret \<noteq> 0 then Inl (ERROR_THREAD_FAILED, g1)
     else Inr ((), g1\<lparr>halt_thread := Suc (created g1),
                       created := Suc (created g1),
                       not_started := not_started g1 @ [Suc (created g1)]\<rparr>))"

definition run_halt_thread :: "header \<Rightarrow> halt_env \<Rightarrow> globals \<Rightarrow> globals" where
  \<comment> \<open>the scheduler lets the oldest thread that has not started run its body, \<^verbatim>\<open>init_halt\<close>,
      in one piece; nothing happens when every created thread has run\<close>
  "run_halt_thread hdr env g =
    (case not_started g of
       [] \<Rightarrow> g
     | t # ts \<Rightarrow> init_halt hdr env (g\<lparr>not_started := ts\<rparr>))"

section \<open>init\_handle\_signal\<close>

text \<open>
  What the collaborators answer while one signal is handled: the exit code that
  \<^verbatim>\<open>spawn_retval\<close> extracts from the status \<^verbatim>\<open>waitpid\<close> stored, the PID \<^verbatim>\<open>spawn1\<close> returns
  and the value \<^verbatim>\<open>pthread_create\<close> returns, for the calls that are made.
\<close>

record signal_env =
  spawn_retval_result :: int
  spawn1_result :: int
  pthread_create_result :: int

definition init_handle_signal ::
  "header \<Rightarrow> signal_env \<Rightarrow> signalfd_siginfo \<Rightarrow> globals \<Rightarrow> bool result" where
  "init_handle_signal hdr env info g =
    (let halt_request = (\<lambda>g.
           if is_halting g then Inr (True, log_warning ''Ignoring halting request'' [] g)
           else
            (case init_halt_thread (pthread_create_result env) (log_debug ''Halting'' [] g) of
               Inl f \<Rightarrow> Inl f
             | Inr (u, g') \<Rightarrow> Inr (True, g')))
     in
     case ssi_signo info of
       SIGCHLD \<Rightarrow>
        (let g1 = call (WAITPID (ssi_pid info)) g;
             retval = spawn_retval_result env;
             lookup = (\<lambda>g2.
               case service_find_by_pid (ssi_pid info) (services g2) of
                 None \<Rightarrow> Inr (True, log_info ''Reaped zombie PID:%d'' [ARG_INT (ssi_pid info)] g2)
               | Some svc \<Rightarrow>
                  (let svc_state' = svc_state (services g2 ! svc);
                       g3 = (call (SERVICE_SET_DOWN svc) g2)
                              \<lparr>services := service_set_down hdr svc (services g2)\<rparr>;
                       g4 = log_error ''Service %s exitted with code %d''
                              [ARG_STR (svc_name (services g3 ! svc)), ARG_INT retval] g3
                   in
                   if svc_state' \<noteq> STATE_PENDING_DOWN hdr \<or> retval \<noteq> 0 then
                     (case init_halt_thread (pthread_create_result env)
                             (log_debug ''Service exitted with code %d when had status %d, halting''
                                [ARG_INT retval, ARG_INT svc_state'] g4) of
                        Inl f \<Rightarrow> Inl f
                      | Inr (u, g5) \<Rightarrow> Inr (True, g5))
                   else Inr (True, g4)))
         in
         if boot_pid g1 = ssi_pid info then
           (if retval = 0 then lookup (log_info ''Booting completed'' [] g1)
            else Inr (False, log_error ''Boot script failed'' [] g1))
         else lookup g1)
     | SIGTERM \<Rightarrow> halt_request g
     | SIGINT \<Rightarrow> halt_request g
     | SIGHUP \<Rightarrow>
         if is_halting g then Inr (True, log_warning ''Ignoring puppet aply request'' [] g)
         else
          (case init_apply (spawn1_result env) (log_debug ''Running puppet apply'' [] g) of
             Inl f \<Rightarrow> Inl f
           | Inr (p, g') \<Rightarrow> Inr (True, g'))
     | SIG_OTHER n \<Rightarrow> Inr (True, g))"

section \<open>init\_loop\<close>

text \<open>
  One entry of \<^verbatim>\<open>events[]\<close> with what the operating system and the collaborators answer
  while it is handled:
  \<^item> the signal descriptor is ready: the record \<^verbatim>\<open>read\<close> delivers (\<open>None\<close> when it does not
    return \<^verbatim>\<open>sizeof(struct signalfd_siginfo)\<close>);
  \<^item> the listening socket is ready: the descriptor \<^verbatim>\<open>accept\<close> returns and the value
    \<^verbatim>\<open>epoll_ctl(EPOLL_CTL_ADD)\<close> returns;
  \<^item> any other descriptor, a client connection: the descriptor, the status and the command
    of \<^verbatim>\<open>control_read_command\<close>, and the value \<^verbatim>\<open>epoll_ctl(EPOLL_CTL_DEL)\<close> returns.
\<close>

datatype poll_event =
    SIGNAL_READY "signalfd_siginfo option" signal_env
  | CONTROL_READY int int
  | CLIENT_READY int status_t control_command_t client_env int

text \<open>
  The halt thread runs beside the loop. Where it runs is part of the input: between two
  entries of \<^verbatim>\<open>events[]\<close> (or before the first, or after the last) the scheduler may let a
  created thread run its body.
\<close>

datatype item = READY poll_event | HALT_THREAD_RUNS halt_env

datatype cycle = EPOLL_WAIT_FAILED | EPOLL_WAIT_RETURNS "item list"

text \<open>
  After a \<^verbatim>\<open>break\<close> out of the inner \<^verbatim>\<open>for\<close> the remaining entries of \<^verbatim>\<open>events[]\<close> are
  not handled; a thread scheduled before the test of \<^verbatim>\<open>is_halting\<close> still runs.
\<close>

fun after_break :: "header \<Rightarrow> item list \<Rightarrow> globals \<Rightarrow> globals" where
  "after_break hdr [] g = g"
| "after_break hdr (READY e # rest) g = after_break hdr rest g"
| "after_break hdr (HALT_THREAD_RUNS env # rest) g =
     after_break hdr rest (run_halt_thread hdr env g)"

text \<open>
  The inner loop \<^verbatim>\<open>for (i = 0; i < changes; i++)\<close>. Its value is the local variable
  \<^verbatim>\<open>exit_code\<close> (\<open>None\<close> is 0), which is assigned before a \<^verbatim>\<open>break\<close> and never reset.
\<close>

fun handle_events ::
  "header \<Rightarrow> item list \<Rightarrow> error_t option \<Rightarrow> globals \<Rightarrow> (error_t option) result" where
  "handle_events hdr [] exit_code g = Inr (exit_code, g)"
| "handle_events hdr (HALT_THREAD_RUNS env # rest) exit_code g =
     handle_events hdr rest exit_code (run_halt_thread hdr env g)"
| "handle_events hdr (READY (SIGNAL_READY rd env) # rest) exit_code g =
    (let g1 = call READ_SIGNAL g in
     case rd of
       None \<Rightarrow>
         Inr (Some ERROR_EPOLL_SIGNAL_MESSAGE,
              after_break hdr rest (log_error ''Bad signal size info read'' [] g1))
     | Some info \<Rightarrow>
        (case init_handle_signal hdr env info g1 of
           Inl f \<Rightarrow> Inl f
         | Inr (ok, g2) \<Rightarrow>
             if \<not> ok then Inr (Some ERROR_EPOLL_SIGNAL, after_break hdr rest g2)
             else handle_events hdr rest exit_code g2))"
| "handle_events hdr (READY (CONTROL_READY fd_client add_ret) # rest) exit_code g =
    (let g1 = call (EPOLL_CTL_ADD fd_client) (call ACCEPT g) in
     if add_ret = - 1 then
       Inr (Some ERROR_SOCKET_FAILED,
            after_break hdr rest
              (log_error ''Failed to setup control client socket polling'' [] g1))
     else handle_events hdr rest exit_code g1)"
| "handle_events hdr (READY (CLIENT_READY fd status command env del_ret) # rest) exit_code g =
    (let g1 = call (CONTROL_READ_COMMAND fd) g;
         (errored, g2) =
           (if status = S_SOCKET_EOF then (True, g1)
            else if status = S_OK then
              (case init_handle_client_command hdr env command fd g1 of
                 (ok, g') \<Rightarrow>
                   if \<not> ok then (True, log_warning ''Failed to handle client message'' [] g')
                   else (False, g'))
            else (True, log_warning ''Failed to read client message'' [] g1))
     in
     if errored then
       (let g3 = call (EPOLL_CTL_DEL fd) g2 in
        if del_ret = - 1 then Inl (ERROR_EPOLL_FAILED, g3)
        else handle_events hdr rest exit_code (call (SHUTDOWN fd) g3))
     else handle_events hdr rest exit_code g2)"

text \<open>
  The loop \<^verbatim>\<open>for (;;)\<close> on the polling cycles given. It ends in \<open>FATAL\<close> when the process
  exits through \<^verbatim>\<open>fatal\<close>, in \<open>FINISHED\<close> when the loop is left by its \<^verbatim>\<open>break\<close>, and in
  \<open>RUNNING\<close> when every cycle given has been handled and the loop waits for the next.
\<close>

datatype outcome =
    FATAL error_t globals
  | FINISHED "error_t option" globals
  | RUNNING "error_t option" globals

fun for_ever :: "header \<Rightarrow> cycle list \<Rightarrow> error_t option \<Rightarrow> globals \<Rightarrow> outcome" where
  "for_ever hdr [] exit_code g = RUNNING exit_code g"
| "for_ever hdr (EPOLL_WAIT_FAILED # cycles) exit_code g =
     FATAL ERROR_EPOLL_WAIT (call EPOLL_WAIT g)"
| "for_ever hdr (EPOLL_WAIT_RETURNS items # cycles) exit_code g =
    (case handle_events hdr items exit_code (log_debug ''loop'' [] (call EPOLL_WAIT g)) of
       Inl (e, g') \<Rightarrow> FATAL e g'
     | Inr (exit_code', g') \<Rightarrow>
         if is_halting g' then
           FINISHED exit_code'
             (if service_count_by_state (STATE_DOWN hdr) True (services g') = 0
              then log_info ''No more services running, exitting'' [] g'
              else g')
         else for_ever hdr cycles exit_code' g')"

text \<open>\<^verbatim>\<open>pthread_join\<close> returns when the thread has run its body.\<close>

definition pthread_join :: "header \<Rightarrow> halt_env \<Rightarrow> nat \<Rightarrow> globals \<Rightarrow> globals" where
  "pthread_join hdr env t g =
    (let g1 = call (PTHREAD_JOIN t) g in
     if t \<in> set (not_started g1)
     then init_halt hdr env (g1\<lparr>not_started := remove1 t (not_started g1)\<rparr>)
     else g1)"

record setup_env =
  fd_signal :: int
  control_listen_status :: status_t
  fd_control :: int
  fd_epoll :: int
  epoll_ctl_signal :: int
  epoll_ctl_control :: int

definition init_loop ::
  "header \<Rightarrow> setup_env \<Rightarrow> cycle list \<Rightarrow> halt_env \<Rightarrow> globals \<Rightarrow> outcome" where
  "init_loop hdr su cycles join_env g =
    (let g1 = call SIGNALFD g in
     if fd_signal su = - 1 then FATAL ERROR_FD_FAILED g1
     else
       let g2 = call CONTROL_LISTEN g1 in
       if control_listen_status su \<noteq> S_OK then FATAL ERROR_SOCKET_FAILED g2
       else
         let g3 = call EPOLL_CREATE1 g2 in
         if fd_epoll su = - 1 then FATAL ERROR_EPOLL_FAILED g3
         else
           let g4 = call (EPOLL_CTL_ADD (fd_signal su)) g3 in
           if epoll_ctl_signal su = - 1 then FATAL ERROR_EPOLL_FAILED g4
           else
             let g5 = call (EPOLL_CTL_ADD (fd_control su)) g4 in
             if epoll_ctl_control su = - 1 then FATAL ERROR_EPOLL_FAILED g5
             else
               (case for_ever hdr cycles None g5 of
                  FATAL e g' \<Rightarrow> FATAL e g'
                | RUNNING exit_code g' \<Rightarrow> RUNNING exit_code g'
                | FINISHED exit_code g' \<Rightarrow>
                   (let g6 = call UNLINK (call (SHUTDOWN (fd_control su)) g') in
                    if halt_thread g6 \<noteq> 0 then
                      FINISHED exit_code
                        (pthread_join hdr join_env (halt_thread g6)
                           (log_debug ''Waiting for halt thread to exit'' [] g6))
                    else FINISHED exit_code g6)))"

definition init_boot ::
  "header \<Rightarrow> int \<Rightarrow> setup_env \<Rightarrow> cycle list \<Rightarrow> halt_env \<Rightarrow> globals \<Rightarrow> outcome" where
  \<comment> \<open>\<open>apply_pid\<close> is what \<^verbatim>\<open>spawn1\<close> returns to \<^verbatim>\<open>init_apply\<close>\<close>
  "init_boot hdr apply_pid su cycles join_env g =
    (case init_apply apply_pid g of
       Inl (e, g') \<Rightarrow> FATAL e g'
     | Inr (p, g') \<Rightarrow>
        (let g1 = g'\<lparr>boot_pid := p\<rparr> in
         if boot_pid g1 = - 1 then FATAL ERROR_BOOT_FAILED g1
         else init_loop hdr su cycles join_env g1))"

text \<open>
  The state in which \<^verbatim>\<open>main\<close> calls \<^verbatim>\<open>init_boot\<close>: the file-scope variables have their
  initial values and the registry is the one \<^verbatim>\<open>service_create_all\<close> has built.
\<close>

definition initial_globals :: "registry \<Rightarrow> globals" where
  "initial_globals reg =
     \<lparr>is_halting = False, boot_pid = 0, halt_thread = 0, services = reg,
      created = 0, not_started = [], trace = []\<rparr>"

section \<open>Observing a run\<close>

text \<open>The calls made between two states of one run, oldest first.\<close>

definition calls_during :: "globals \<Rightarrow> globals \<Rightarrow> call list" where
  "calls_during g g' = drop (length (trace g)) (trace g')"

text \<open>The responses written to clients: socket, value and length of every \<^verbatim>\<open>send\<close>.\<close>

fun responses :: "call list \<Rightarrow> (int \<times> int \<times> nat) list" where
  "responses [] = []"
| "responses (SEND s r n # cs) = (s, r, n) # responses cs"
| "responses (c # cs) = responses cs"

text \<open>The calls that start or stop services.\<close>

fun service_calls :: "call list \<Rightarrow> call list" where
  "service_calls [] = []"
| "service_calls (SERVICE_START i # cs) = SERVICE_START i # service_calls cs"
| "service_calls (SERVICE_STOP i # cs) = SERVICE_STOP i # service_calls cs"
| "service_calls (SERVICE_STOP_ALL # cs) = SERVICE_STOP_ALL # service_calls cs"
| "service_calls (c # cs) = service_calls cs"

text \<open>The state in which a function that may call \<^verbatim>\<open>fatal\<close> leaves the process.\<close>

definition state_of :: "'a result \<Rightarrow> globals" where
  "state_of r = (case r of Inl (e, g) \<Rightarrow> g | Inr (v, g) \<Rightarrow> g)"

definition outcome_state :: "outcome \<Rightarrow> globals" where
  "outcome_state out = (case out of FATAL e g \<Rightarrow> g | FINISHED c g \<Rightarrow> g | RUNNING c g \<Rightarrow> g)"

text \<open>The exit code \<^verbatim>\<open>init_loop\<close> returns, when it returns.\<close>

definition returned :: "outcome \<Rightarrow> error_t option option" where
  "returned out = (case out of FINISHED c g \<Rightarrow> Some c | _ \<Rightarrow> None)"

text \<open>The process is still in the loop when the polling cycles given are used up.\<close>

definition still_running :: "outcome \<Rightarrow> bool" where
  "still_running out = (case out of RUNNING c g \<Rightarrow> True | _ \<Rightarrow> False)"

text \<open>The number of halt threads asked for: the calls of \<^verbatim>\<open>pthread_create\<close>.\<close>

definition halt_triggers :: "call list \<Rightarrow> nat" where
  "halt_triggers cs = length (filter (\<lambda>c. c = PTHREAD_CREATE) cs)"


definition response_tag :: "int \<Rightarrow> int" where
  \<comment> \<open>Modelled from the spec: the decoding of a response word is done by the control
      client, which is absent; the low bits of the word are the response tag. The tag is
      what lies below the four bits by which \<^verbatim>\<open>init.c\<close> shifts the state.\<close>
  "response_tag r = take_bit 4 r"

definition response_state :: "int \<Rightarrow> int" where
  \<comment> \<open>Modelled from the spec: the decoding of a response word is done by the control
      client, which is absent; when the tag is \<^verbatim>\<open>STATE\<close>, the high bits carry the
      service's state value.\<close>
  "response_state r = drop_bit 4 r"

section \<open>Concrete inputs\<close>

text \<open>
  A header for the concrete runs below: a response of one byte, the response tags numbered
  as the spec lists them (\<^verbatim>\<open>OK\<close>, \<^verbatim>\<open>FAILED\<close>, \<^verbatim>\<open>ERROR\<close>, \<^verbatim>\<open>FAILED_LOOKUP\<close>, \<^verbatim>\<open>STATE\<close>), and
  the service states 0 for \<^verbatim>\<open>DOWN\<close>, 2 for a running service and 3 for \<^verbatim>\<open>PENDING_DOWN\<close>.
\<close>

definition example_header :: header where
  "example_header =
     \<lparr>STATE_DOWN = 0, STATE_PENDING_DOWN = 3,
      CMD_RESPONSE_OK = 0, CMD_RESPONSE_FAILED = 1, CMD_RESPONSE_ERROR = 2,
      CMD_RESPONSE_STATE = 4, CMD_RESPONSE_FAILED_LOOKUP = 3,
      sizeof_control_reponse_t = 1\<rparr>"

definition nginx :: service where
  "nginx = \<lparr>svc_name = ''nginx'', svc_pid = 200, svc_state = 2\<rparr>"

text \<open>The supervisor of one running service, with the bootstrap process 100 tracked.\<close>

definition booted :: globals where
  "booted = (initial_globals [nginx])\<lparr>boot_pid := 100\<rparr>"

definition halting :: globals where
  "halting = booted\<lparr>is_halting := True\<rparr>"

definition client_answers :: client_env where
  "client_answers =
     \<lparr>service_result = True, service_effect = (\<lambda>reg. reg), send_result = 1\<rparr>"

text \<open>
  The halt action fails with exit code 1; \<^verbatim>\<open>service_stop_all\<close> leaves the services that
  are not \<^verbatim>\<open>DOWN\<close> in \<^verbatim>\<open>PENDING_DOWN\<close>.
\<close>

definition halt_answers :: halt_env where
  "halt_answers =
     \<lparr>spawn2_wait_result = 1,
      stop_all_effect = map (\<lambda>s. if svc_state s = 0 then s else s\<lparr>svc_state := 3\<rparr>)\<rparr>"

definition signal_answers :: "int \<Rightarrow> signal_env" where
  "signal_answers retval =
     \<lparr>spawn_retval_result = retval, spawn1_result = 101, pthread_create_result = 0\<rparr>"

definition child_exited :: "int \<Rightarrow> signalfd_siginfo" where
  "child_exited p = \<lparr>ssi_signo = SIGCHLD, ssi_pid = p\<rparr>"

text \<open>The service is down.\<close>

definition stopped :: globals where
  "stopped = booted\<lparr>services := [nginx\<lparr>svc_state := 0\<rparr>]\<rparr>"


subsection \<open>Runs of the whole supervisor\<close>

text \<open>
  Every set-up call succeeds; the halt action succeeds; \<^verbatim>\<open>init_boot\<close> starts the bootstrap
  process 100 and supervises the one running service.
\<close>

definition setup_answers :: setup_env where
  "setup_answers =
     \<lparr>fd_signal = 3, control_listen_status = S_OK, fd_control = 4, fd_epoll = 5,
      epoll_ctl_signal = 0, epoll_ctl_control = 0\<rparr>"

definition halt_done :: halt_env where
  "halt_done = halt_answers\<lparr>spawn2_wait_result := 0\<rparr>"

definition sigterm :: signalfd_siginfo where
  "sigterm = \<lparr>ssi_signo = SIGTERM, ssi_pid = 0\<rparr>"

definition run :: "cycle list \<Rightarrow> outcome" where
  "run cycles =
     init_boot example_header 100 setup_answers cycles halt_done (initial_globals [nginx])"

text \<open>
  Polling cycles. The signal descriptor is registered once, so a cycle has at most one
  entry for it and one signal is read in it. The cycles are: the bootstrap process exits
  with the code given; nothing is ready (the wait times out); \<^verbatim>\<open>SIGTERM\<close> arrives and the
  halt thread runs before the cycle ends; \<^verbatim>\<open>SIGTERM\<close> arrives and the halt thread, though
  created, does not run yet; and the halt thread runs, after which the exit of the service
  with code 1 is read.
\<close>

definition boot_cycle :: "int \<Rightarrow> cycle" where
  "boot_cycle retval = EPOLL_WAIT_RETURNS
     [READY (SIGNAL_READY (Some (child_exited 100)) (signal_answers retval))]"

definition idle_cycle :: cycle where
  "idle_cycle = EPOLL_WAIT_RETURNS []"

definition term_cycle :: cycle where
  "term_cycle = EPOLL_WAIT_RETURNS
     [READY (SIGNAL_READY (Some sigterm) (signal_answers 0)), HALT_THREAD_RUNS halt_done]"

definition sigterm_cycle :: cycle where
  "sigterm_cycle = EPOLL_WAIT_RETURNS
     [READY (SIGNAL_READY (Some sigterm) (signal_answers 0))]"

definition death_cycle :: cycle where
  "death_cycle = EPOLL_WAIT_RETURNS
     [HALT_THREAD_RUNS halt_done,
      READY (SIGNAL_READY (Some (child_exited 200)) (signal_answers 1))]"

text \<open>
  A run in which the PID of the bootstrap process is used again. The service is down when
  \<^verbatim>\<open>init_boot\<close> starts the bootstrap process, which gets the PID 200, exits with code 0 and
  is reaped. A client then connects and sends \<^verbatim>\<open>START\<close> for the service; \<^verbatim>\<open>service_start\<close>
  succeeds, and the process of the service is given the PID 200. At last the service exits
  with code 1. Every polling cycle has one entry.
\<close>

definition start_answers :: client_env where
  "start_answers =
     \<lparr>service_result = True, service_effect = (\<lambda>reg. [nginx]), send_result = 1\<rparr>"

definition pid_reuse_run :: outcome where
  "pid_reuse_run =
     init_boot example_header 200 setup_answers
       [EPOLL_WAIT_RETURNS [READY (SIGNAL_READY (Some (child_exited 200)) (signal_answers 0))],
        EPOLL_WAIT_RETURNS [READY (CONTROL_READY 6 0)],
        EPOLL_WAIT_RETURNS
          [READY (CLIENT_READY 6 S_OK \<lparr>cmd_type = CMD_START, cmd_name = ''nginx''\<rparr>
             start_answers 0)],
        EPOLL_WAIT_RETURNS [READY (SIGNAL_READY (Some (child_exited 200)) (signal_answers 1))]]
       halt_done (initial_globals [nginx\<lparr>svc_pid := 0, svc_state := 0\<rparr>])"

section \<open>Properties\<close>

lemmas log_defs = log_debug_def log_info_def log_warning_def log_error_def call_def

lemmas example_defs =
  example_header_def nginx_def booted_def client_answers_def initial_globals_def
  signal_answers_def child_exited_def

lemmas signal_defs =
  init_handle_signal_def init_halt_thread_def init_apply_def service_find_by_pid_def
  service_set_down_def state_of_def calls_during_def log_defs

lemma find_first_Some:
  "find_first P xs = Some i \<Longrightarrow> i < length xs \<and> P (xs ! i)"
proof (induction xs arbitrary: i)
  case Nil
  then show ?case by simp
next
  case (Cons x xs)
  then show ?case by (auto split: if_splits)
qed

lemmas handler_defs =
  init_handle_client_command_def calls_during_def log_defs service_find_by_name_def
  to_control_reponse_t_def

subsection \<open>The response word\<close>

lemma encode_fits:
  fixes S T :: int
  assumes "0 \<le> S" "S < 2 ^ (n - 4)" "0 \<le> T" "T < 16" "8 \<le> n"
  shows "take_bit n (push_bit 4 S OR T) = push_bit 4 S OR T"
proof -
  have n: "n = (n - 4) + 4" using assms by simp
  have a: "push_bit 4 S < 2 ^ n"
  proof -
    have "push_bit 4 S = S * 2 ^ 4" by (simp add: push_bit_eq_mult)
    also have "\<dots> < 2 ^ (n - 4) * 2 ^ 4" using assms by simp
    also have "\<dots> = 2 ^ n" by (subst (2) n) (simp only: power_add)
    finally show ?thesis .
  qed
  have b: "T < 2 ^ n"
  proof -
    have "(2::int) ^ 4 \<le> 2 ^ n" using assms by (intro power_increasing) auto
    then show ?thesis using assms by simp
  qed
  have "0 \<le> push_bit 4 S OR T" using assms by simp
  moreover have "push_bit 4 S OR T < 2 ^ n"
    using a b assms by (intro OR_upper) auto
  ultimately show ?thesis by (rule take_bit_int_eq_self)
qed

lemma small_tag:
  fixes T :: int
  assumes "0 \<le> T" "T < 16"
  shows "take_bit 4 T = T" "drop_bit 4 T = 0"
  using assms by (simp_all add: take_bit_int_eq_self drop_bit_eq_div)

text \<open>
  C7. A \<^verbatim>\<open>STATUS\<close> command for a known service whose state is \<open>S\<close> is answered with one
  response word, \<^verbatim>\<open>S<<4 | CMD_RESPONSE_STATE\<close> cut to the width of the response type. For
  every state value that fits above the four tag bits of that width, and a \<^verbatim>\<open>STATE\<close> tag
  that fits in the four tag bits, decoding the word gives back the tag \<^verbatim>\<open>STATE\<close> and the
  exact value \<open>S\<close>.
\<close>

theorem status_response_round_trip:
  assumes "cmd_type c = CMD_STATUS"
    and "service_find_by_name (cmd_name c) (services g) = Some svc"
    and "svc_state (services g ! svc) = S"
    and "0 \<le> S" and "S < 2 ^ (8 * sizeof_control_reponse_t hdr - 4)"
    and "0 \<le> CMD_RESPONSE_STATE hdr" and "CMD_RESPONSE_STATE hdr < 16"
    and "0 < sizeof_control_reponse_t hdr"
    and "init_handle_client_command hdr env c socket g = (ok, g')"
    and "r = to_control_reponse_t hdr (push_bit 4 S OR CMD_RESPONSE_STATE hdr)"
  shows "responses (calls_during g g') = [(socket, r, sizeof_control_reponse_t hdr)]
       \<and> response_tag r = CMD_RESPONSE_STATE hdr \<and> response_state r = S"
proof -
  have "8 \<le> 8 * sizeof_control_reponse_t hdr" using assms(8) by simp
  then have r: "r = push_bit 4 S OR CMD_RESPONSE_STATE hdr"
    unfolding assms(10) to_control_reponse_t_def using assms(4-7) by (intro encode_fits)
  have "responses (calls_during g g') = [(socket, r, sizeof_control_reponse_t hdr)]"
    using assms(1,2,3,9,10)
    by (auto simp: init_handle_client_command_def calls_during_def log_defs Let_def)
  then show ?thesis
    using small_tag [OF assms(6,7)]
    by (simp add: r response_tag_def response_state_def take_bit_push_bit drop_bit_push_bit)
qed

theorem status_response_round_trip_witness:
  "service_find_by_name ''nginx'' (services booted) = Some 0
   \<and> svc_state (services booted ! 0) = 2
   \<and> responses (calls_during booted (snd (init_handle_client_command example_header client_answers
         \<lparr>cmd_type = CMD_STATUS, cmd_name = ''nginx''\<rparr> 5 booted))) = [(5, 36, 1)]
   \<and> response_tag 36 = 4 \<and> response_state 36 = 2"
  using status_response_round_trip [of "\<lparr>cmd_type = CMD_STATUS, cmd_name = ''nginx''\<rparr>" booted 0 2
      example_header client_answers 5
      "fst (init_handle_client_command example_header client_answers
         \<lparr>cmd_type = CMD_STATUS, cmd_name = ''nginx''\<rparr> 5 booted)"
      "snd (init_handle_client_command example_header client_answers
         \<lparr>cmd_type = CMD_STATUS, cmd_name = ''nginx''\<rparr> 5 booted)" 36]
  by (simp add: example_defs service_find_by_name_def to_control_reponse_t_def)

subsection \<open>The command handler\<close>

text \<open>
  C3. While \<^verbatim>\<open>is_halting\<close> is set, a \<^verbatim>\<open>START\<close> or \<^verbatim>\<open>STOP\<close> command is answered with the
  \<^verbatim>\<open>ERROR\<close> response, neither \<^verbatim>\<open>service_start\<close> nor \<^verbatim>\<open>service_stop\<close> is called and the
  registry is left as it was; a \<^verbatim>\<open>STATUS\<close> command for a service of the registry is still
  answered with the \<^verbatim>\<open>STATE\<close> response that carries the state the registry holds for it.
\<close>

theorem halt_gating:
  assumes "is_halting g"
    and "init_handle_client_command hdr env c socket g = (ok, g')"
  shows "(cmd_type c = CMD_START \<or> cmd_type c = CMD_STOP \<longrightarrow>
            responses (calls_during g g') =
              [(socket, to_control_reponse_t hdr (CMD_RESPONSE_ERROR hdr),
                sizeof_control_reponse_t hdr)]
            \<and> service_calls (calls_during g g') = []
            \<and> services g' = services g)
       \<and> (cmd_type c = CMD_STATUS \<longrightarrow>
            (\<forall>svc. service_find_by_name (cmd_name c) (services g) = Some svc \<longrightarrow>
               responses (calls_during g g') =
                 [(socket,
                   to_control_reponse_t hdr
                     (push_bit 4 (svc_state (services g ! svc)) OR CMD_RESPONSE_STATE hdr),
                   sizeof_control_reponse_t hdr)]
               \<and> services g' = services g))"
  using assms
  by (auto simp: init_handle_client_command_def calls_during_def log_defs Let_def
           split: option.splits command_type.splits)

theorem halt_gating_witness:
  "is_halting halting
   \<and> responses (calls_during halting (snd (init_handle_client_command example_header client_answers
         \<lparr>cmd_type = CMD_STOP, cmd_name = ''nginx''\<rparr> 5 halting))) = [(5, 2, 1)]
   \<and> service_calls (calls_during halting (snd (init_handle_client_command example_header
         client_answers \<lparr>cmd_type = CMD_STOP, cmd_name = ''nginx''\<rparr> 5 halting))) = []
   \<and> services (snd (init_handle_client_command example_header client_answers
         \<lparr>cmd_type = CMD_STOP, cmd_name = ''nginx''\<rparr> 5 halting)) = [nginx]"
  using halt_gating [of halting example_header client_answers
      "\<lparr>cmd_type = CMD_STOP, cmd_name = ''nginx''\<rparr>" 5
      "fst (init_handle_client_command example_header client_answers
         \<lparr>cmd_type = CMD_STOP, cmd_name = ''nginx''\<rparr> 5 halting)"
      "snd (init_handle_client_command example_header client_answers
         \<lparr>cmd_type = CMD_STOP, cmd_name = ''nginx''\<rparr> 5 halting)"]
  by (simp add: halting_def example_defs to_control_reponse_t_def)

text \<open>
  C5, as the code has it. A command whose service name matches no entry of the registry
  is answered with the generic \<^verbatim>\<open>ERROR\<close> response (not with \<^verbatim>\<open>FAILED_LOOKUP\<close>), after a
  warning that the service was not found; nothing else is called, so no service is started
  or stopped, and the registry is left as it was.
\<close>

theorem unknown_service_error:
  assumes "service_find_by_name (cmd_name c) (services g) = None"
    and "init_handle_client_command hdr env c socket g = (ok, g')"
  shows "calls_during g g' =
           [LOG LOG_WARNING ''Service %s was not found'' [ARG_STR (cmd_name c)],
            SEND socket (to_control_reponse_t hdr (CMD_RESPONSE_ERROR hdr))
              (sizeof_control_reponse_t hdr)]
         \<and> services g' = services g"
  using assms
  by (auto simp: init_handle_client_command_def calls_during_def log_defs Let_def)

theorem unknown_service_error_witness:
  "service_find_by_name ''nonexistent'' (services booted) = None
   \<and> calls_during booted (snd (init_handle_client_command example_header client_answers
         \<lparr>cmd_type = CMD_STOP, cmd_name = ''nonexistent''\<rparr> 5 booted)) =
       [LOG LOG_WARNING ''Service %s was not found'' [ARG_STR ''nonexistent''], SEND 5 2 1]
   \<and> services (snd (init_handle_client_command example_header client_answers
         \<lparr>cmd_type = CMD_STOP, cmd_name = ''nonexistent''\<rparr> 5 booted)) = [nginx]"
  using unknown_service_error [of "\<lparr>cmd_type = CMD_STOP, cmd_name = ''nonexistent''\<rparr>" booted
      example_header client_answers 5
      "fst (init_handle_client_command example_header client_answers
         \<lparr>cmd_type = CMD_STOP, cmd_name = ''nonexistent''\<rparr> 5 booted)"
      "snd (init_handle_client_command example_header client_answers
         \<lparr>cmd_type = CMD_STOP, cmd_name = ''nonexistent''\<rparr> 5 booted)"]
  by (simp add: example_defs service_find_by_name_def to_control_reponse_t_def)

text \<open>
  As the spec words it, the property fails: a \<^verbatim>\<open>STOP\<close> command for the name "nonexistent",
  received while not halting, is answered with \<^verbatim>\<open>ERROR\<close>, which is not \<^verbatim>\<open>FAILED_LOOKUP\<close>.
\<close>

theorem unknown_service_counterexample:
  "\<not> is_halting booted
   \<and> service_find_by_name ''nonexistent'' (services booted) = None
   \<and> responses (calls_during booted (snd (init_handle_client_command example_header client_answers
         \<lparr>cmd_type = CMD_STOP, cmd_name = ''nonexistent''\<rparr> 5 booted))) =
       [(5, to_control_reponse_t example_header (CMD_RESPONSE_ERROR example_header), 1)]
   \<and> to_control_reponse_t example_header (CMD_RESPONSE_ERROR example_header)
       \<noteq> to_control_reponse_t example_header (CMD_RESPONSE_FAILED_LOOKUP example_header)"
  by (simp add: example_defs handler_defs)







subsection \<open>The halt procedure\<close>

text \<open>The counter \<^verbatim>\<open>uint8_t i\<close> holds the count of \<^verbatim>\<open>service_stop_all\<close> modulo 256.\<close>

lemma uint8_positive: "(word_of_nat n :: 8 word) > 0 \<longleftrightarrow> n mod 256 \<noteq> 0"
  by (simp add: word_greater_zero_iff word_of_nat_eq_0_iff dvd_eq_mod_eq_0)

lemma uint8_value: "uint (word_of_nat n :: 8 word) = int (n mod 256)"
  by (simp add: uint_nat unat_of_nat)

text \<open>
  C9, as the code has it. When \<^verbatim>\<open>init_halt\<close> runs with \<^verbatim>\<open>is_halting\<close> not yet set, it
  sets the flag, logs, runs the convergence action with the "halt" directive and waits for
  it, logs an error when that returned non-zero, and in either case goes on to call
  \<^verbatim>\<open>service_stop_all\<close>, in this order. The warning with the count of services that were
  not yet \<^verbatim>\<open>DOWN\<close> is logged only when the count, as the 8-bit counter holds it, is not
  zero.
\<close>

theorem init_halt_steps:
  assumes "\<not> is_halting g"
    and "n = service_count_by_state (STATE_DOWN hdr) True (services g)"
    and "ret = spawn2_wait_result env"
    and "g' = init_halt hdr env g"
  shows "is_halting g'
       \<and> calls_during g g' =
           [SET_IS_HALTING, LOG LOG_DEBUG ''Running halt action'' [], SPAWN2_WAIT ''halt'']
           @ (if ret \<noteq> 0
              then [LOG LOG_ERROR ''Puppet halt failed with exitcode %d'' [ARG_INT ret]]
              else [])
           @ [SERVICE_STOP_ALL]
           @ (if n mod 256 \<noteq> 0
              then [LOG LOG_WARNING ''Stopping %d outstanding services.''
                      [ARG_INT (int (n mod 256))]]
              else [])
       \<and> services g' = stop_all_effect env (services g)"
proof -
  show ?thesis
    unfolding assms(2,3,4) using assms(1)
    by (cases "spawn2_wait_result env = 0")
       (simp_all add: init_halt_def service_stop_all_def calls_during_def log_defs Let_def
          uint8_positive uint8_value)
qed

theorem init_halt_steps_witness:
  "\<not> is_halting booted
   \<and> service_count_by_state (STATE_DOWN example_header) True (services booted) = 1
   \<and> is_halting (init_halt example_header halt_answers booted)
   \<and> calls_during booted (init_halt example_header halt_answers booted) =
       [SET_IS_HALTING, LOG LOG_DEBUG ''Running halt action'' [], SPAWN2_WAIT ''halt'',
        LOG LOG_ERROR ''Puppet halt failed with exitcode %d'' [ARG_INT 1],
        SERVICE_STOP_ALL,
        LOG LOG_WARNING ''Stopping %d outstanding services.'' [ARG_INT 1]]
   \<and> services (init_halt example_header halt_answers booted) = [nginx\<lparr>svc_state := 3\<rparr>]"
  using init_halt_steps [of booted 1 example_header 1 halt_answers
      "init_halt example_header halt_answers booted"]
  by (simp add: halt_answers_def example_defs service_count_by_state_def)

text \<open>
  As the spec words it, the property fails when no service is outstanding: \<^verbatim>\<open>service_stop_all\<close>
  is called and no warning is logged.
\<close>

theorem init_halt_warning_counterexample:
  "\<not> is_halting stopped
   \<and> service_count_by_state (STATE_DOWN example_header) True (services stopped) = 0
   \<and> calls_during stopped (init_halt example_header halt_answers stopped) =
       [SET_IS_HALTING, LOG LOG_DEBUG ''Running halt action'' [], SPAWN2_WAIT ''halt'',
        LOG LOG_ERROR ''Puppet halt failed with exitcode %d'' [ARG_INT 1],
        SERVICE_STOP_ALL]"
  by (simp add: stopped_def halt_answers_def example_defs service_count_by_state_def
        init_halt_def service_stop_all_def calls_during_def log_defs)

subsection \<open>Reaping\<close>

lemma reap_calls:
  assumes "ssi_signo info = SIGCHLD"
    and "service_find_by_pid (ssi_pid info) (services g) = Some svc"
    and "\<not> (boot_pid g = ssi_pid info \<and> spawn_retval_result env \<noteq> 0)"
  shows "calls_during g (state_of (init_handle_signal hdr env info g)) =
          [WAITPID (ssi_pid info)]
          @ (if boot_pid g = ssi_pid info then [LOG LOG_INFO ''Booting completed'' []] else [])
          @ [SERVICE_SET_DOWN svc,
             LOG LOG_ERROR ''Service %s exitted with code %d''
               [ARG_STR (svc_name (service_set_down hdr svc (services g) ! svc)),
                ARG_INT (spawn_retval_result env)]]
          @ (if svc_state (services g ! svc) \<noteq> STATE_PENDING_DOWN hdr \<or> spawn_retval_result env \<noteq> 0
             then [LOG LOG_DEBUG ''Service exitted with code %d when had status %d, halting''
                     [ARG_INT (spawn_retval_result env), ARG_INT (svc_state (services g ! svc))],
                   PTHREAD_CREATE]
             else [])"
    and "services (state_of (init_handle_signal hdr env info g))
           = service_set_down hdr svc (services g)"
proof -
  show "calls_during g (state_of (init_handle_signal hdr env info g)) =
          [WAITPID (ssi_pid info)]
          @ (if boot_pid g = ssi_pid info then [LOG LOG_INFO ''Booting completed'' []] else [])
          @ [SERVICE_SET_DOWN svc,
             LOG LOG_ERROR ''Service %s exitted with code %d''
               [ARG_STR (svc_name (service_set_down hdr svc (services g) ! svc)),
                ARG_INT (spawn_retval_result env)]]
          @ (if svc_state (services g ! svc) \<noteq> STATE_PENDING_DOWN hdr \<or> spawn_retval_result env \<noteq> 0
             then [LOG LOG_DEBUG ''Service exitted with code %d when had status %d, halting''
                     [ARG_INT (spawn_retval_result env), ARG_INT (svc_state (services g ! svc))],
                   PTHREAD_CREATE]
             else [])"
    using assms
    by (cases "boot_pid g = ssi_pid info"; cases "pthread_create_result env = 0")
       (simp_all add: init_handle_signal_def init_halt_thread_def state_of_def calls_during_def
          log_defs Let_def)
  show "services (state_of (init_handle_signal hdr env info g))
           = service_set_down hdr svc (services g)"
    using assms
    by (cases "boot_pid g = ssi_pid info"; cases "pthread_create_result env = 0")
       (simp_all add: init_handle_signal_def init_halt_thread_def state_of_def
          log_defs Let_def)
qed

text \<open>
  A \<^verbatim>\<open>SIGCHLD\<close> that names a PID registered to a service, and does not take the failure
  branch of the bootstrap process, has the state of the service read before the service
  is marked \<^verbatim>\<open>DOWN\<close>; \<^verbatim>\<open>init_halt_thread\<close> is called if that state was not \<^verbatim>\<open>PENDING_DOWN\<close>
  or the exit code was not 0, and not otherwise.
\<close>

lemma reap_known_service:
  assumes "ssi_signo info = SIGCHLD"
    and "service_find_by_pid (ssi_pid info) (services g) = Some svc"
    and "\<not> (boot_pid g = ssi_pid info \<and> retval \<noteq> 0)"
    and "retval = spawn_retval_result env"
    and "pre = svc_state (services g ! svc)"
    and "g' = state_of (init_handle_signal hdr env info g)"
  shows "svc_state (services g' ! svc) = STATE_DOWN hdr
       \<and> services g' = service_set_down hdr svc (services g)
       \<and> calls_during g g' =
          [WAITPID (ssi_pid info)]
          @ (if boot_pid g = ssi_pid info then [LOG LOG_INFO ''Booting completed'' []] else [])
          @ [SERVICE_SET_DOWN svc,
             LOG LOG_ERROR ''Service %s exitted with code %d''
               [ARG_STR (svc_name (services g ! svc)), ARG_INT retval]]
          @ (if pre \<noteq> STATE_PENDING_DOWN hdr \<or> retval \<noteq> 0
             then [LOG LOG_DEBUG ''Service exitted with code %d when had status %d, halting''
                     [ARG_INT retval, ARG_INT pre],
                   PTHREAD_CREATE]
             else [])
       \<and> halt_triggers (calls_during g g') =
           (if pre \<noteq> STATE_PENDING_DOWN hdr \<or> retval \<noteq> 0 then 1 else 0)"
proof -
  have i: "svc < length (services g)"
    using assms(2) find_first_Some unfolding service_find_by_pid_def by blast
  have a: "\<not> (boot_pid g = ssi_pid info \<and> spawn_retval_result env \<noteq> 0)"
    using assms(3,4) by simp
  note r = reap_calls [OF assms(1,2) a, of hdr]
  have n: "svc_name (service_set_down hdr svc (services g) ! svc) = svc_name (services g ! svc)"
    using i by (simp add: service_set_down_def)
  have d: "svc_state (services g' ! svc) = STATE_DOWN hdr"
    unfolding assms(6) r(2) using i by (simp add: service_set_down_def)
  have c: "calls_during g g' =
          [WAITPID (ssi_pid info)]
          @ (if boot_pid g = ssi_pid info then [LOG LOG_INFO ''Booting completed'' []] else [])
          @ [SERVICE_SET_DOWN svc,
             LOG LOG_ERROR ''Service %s exitted with code %d''
               [ARG_STR (svc_name (services g ! svc)), ARG_INT retval]]
          @ (if pre \<noteq> STATE_PENDING_DOWN hdr \<or> retval \<noteq> 0
             then [LOG LOG_DEBUG ''Service exitted with code %d when had status %d, halting''
                     [ARG_INT retval, ARG_INT pre],
                   PTHREAD_CREATE]
             else [])"
    unfolding assms(4,5,6) r(1) n by (rule refl)
  have h: "halt_triggers (calls_during g g') =
           (if pre \<noteq> STATE_PENDING_DOWN hdr \<or> retval \<noteq> 0 then 1 else 0)"
    unfolding c by (simp add: halt_triggers_def)
  from d r(2) c h show ?thesis unfolding assms(6) by blast
qed

lemma pid_reuse_run_eq:
  "pid_reuse_run = RUNNING (Some ERROR_EPOLL_SIGNAL)
     \<lparr>is_halting = False, boot_pid = 200, halt_thread = 0,
      services = [nginx], created = 0, not_started = [],
      trace =
        [SPAWN1, SIGNALFD, CONTROL_LISTEN, EPOLL_CREATE1, EPOLL_CTL_ADD 3, EPOLL_CTL_ADD 4,
         EPOLL_WAIT, LOG LOG_DEBUG ''loop'' [], READ_SIGNAL, WAITPID 200,
         LOG LOG_INFO ''Booting completed'' [],
         LOG LOG_INFO ''Reaped zombie PID:%d'' [ARG_INT 200],
         EPOLL_WAIT, LOG LOG_DEBUG ''loop'' [], ACCEPT, EPOLL_CTL_ADD 6,
         EPOLL_WAIT, LOG LOG_DEBUG ''loop'' [], CONTROL_READ_COMMAND 6,
         LOG LOG_DEBUG ''cmd type: %d'' [ARG_TYPE CMD_START], SERVICE_START 0, SEND 6 0 1,
         EPOLL_WAIT, LOG LOG_DEBUG ''loop'' [], READ_SIGNAL, WAITPID 200,
         LOG LOG_ERROR ''Boot script failed'' []]\<rparr>"
  by (simp add: pid_reuse_run_def start_answers_def init_boot_def init_loop_def
        setup_answers_def handler_defs example_defs signal_defs)

text \<open>
  C4 fails on the code. The service was given the PID that the bootstrap process had, and
  exits with code 1. Its \<^verbatim>\<open>SIGCHLD\<close> is handled as a failure of the bootstrap process: the
  handler logs "Boot script failed" and returns before the registry is looked at. The
  service is not marked \<^verbatim>\<open>DOWN\<close>, no halt is triggered, and the loop goes on with the
  service held as running.
\<close>

theorem reap_skipped_on_reused_pid:
  "still_running pid_reuse_run
   \<and> services (outcome_state pid_reuse_run) = [nginx]
   \<and> service_find_by_pid 200 (services (outcome_state pid_reuse_run)) = Some 0
   \<and> svc_state (services (outcome_state pid_reuse_run) ! 0) \<noteq> STATE_DOWN example_header
   \<and> SERVICE_SET_DOWN 0 \<notin> set (trace (outcome_state pid_reuse_run))
   \<and> halt_triggers (trace (outcome_state pid_reuse_run)) = 0
   \<and> \<not> is_halting (outcome_state pid_reuse_run)
   \<and> last (trace (outcome_state pid_reuse_run)) = LOG LOG_ERROR ''Boot script failed'' []"
  unfolding pid_reuse_run_eq
  by (simp add: still_running_def outcome_state_def halt_triggers_def service_find_by_pid_def
        example_defs)

subsection \<open>The bootstrap PID\<close>

text \<open>No function of \<^verbatim>\<open>init.c\<close> assigns \<^verbatim>\<open>boot_pid\<close> once the loop runs.\<close>

lemma boot_pid_call [simp]: "boot_pid (call c g) = boot_pid g"
  by (simp add: call_def)

lemma boot_pid_log [simp]:
  "boot_pid (log_debug f a g) = boot_pid g"
  "boot_pid (log_info f a g) = boot_pid g"
  "boot_pid (log_warning f a g) = boot_pid g"
  "boot_pid (log_error f a g) = boot_pid g"
  by (simp_all add: log_defs)

lemma boot_pid_init_halt [simp]: "boot_pid (init_halt hdr env g) = boot_pid g"
  by (simp add: init_halt_def Let_def split: prod.splits)

lemma boot_pid_run_halt_thread [simp]: "boot_pid (run_halt_thread hdr env g) = boot_pid g"
  by (simp add: run_halt_thread_def split: list.splits)

lemma boot_pid_after_break [simp]: "boot_pid (after_break hdr items g) = boot_pid g"
  by (induction hdr items g rule: after_break.induct) simp_all












subsection \<open>The loop\<close>

lemmas run_defs = run_def init_boot_def init_loop_def pthread_join_def run_halt_thread_def
  init_halt_def service_stop_all_def service_count_by_state_def setup_answers_def sigterm_def
  halt_done_def halt_answers_def boot_cycle_def

text \<open>
  At the end of a polling cycle the loop is left as soon as \<^verbatim>\<open>is_halting\<close> is set,
  whatever the registry holds: the \<^verbatim>\<open>break\<close> follows the test of the count, it is not
  guarded by it.
\<close>

lemma halting_breaks:
  assumes "is_halting g"
  shows "returned (for_ever hdr (EPOLL_WAIT_RETURNS [] # cycles) exit_code g) = Some exit_code
       \<and> services (outcome_state (for_ever hdr (EPOLL_WAIT_RETURNS [] # cycles) exit_code g))
           = services g"
  using assms by (simp add: returned_def outcome_state_def log_defs)

lemma run_term:
  "run [boot_cycle 0, term_cycle] = FINISHED None
     \<lparr>is_halting = True, boot_pid = 100, halt_thread = 1,
      services = [nginx\<lparr>svc_state := 3\<rparr>], created = 1, not_started = [],
      trace =
        [SPAWN1, SIGNALFD, CONTROL_LISTEN, EPOLL_CREATE1, EPOLL_CTL_ADD 3, EPOLL_CTL_ADD 4,
         EPOLL_WAIT, LOG LOG_DEBUG ''loop'' [], READ_SIGNAL, WAITPID 100,
         LOG LOG_INFO ''Booting completed'' [],
         LOG LOG_INFO ''Reaped zombie PID:%d'' [ARG_INT 100],
         EPOLL_WAIT, LOG LOG_DEBUG ''loop'' [], READ_SIGNAL,
         LOG LOG_DEBUG ''Halting'' [], PTHREAD_CREATE, SET_IS_HALTING,
         LOG LOG_DEBUG ''Running halt action'' [], SPAWN2_WAIT ''halt'', SERVICE_STOP_ALL,
         LOG LOG_WARNING ''Stopping %d outstanding services.'' [ARG_INT 1],
         SHUTDOWN 4, UNLINK, LOG LOG_DEBUG ''Waiting for halt thread to exit'' [],
         PTHREAD_JOIN 1]\<rparr>"
  by (simp add: term_cycle_def run_defs example_defs signal_defs)

text \<open>
  C1 fails on the code. The bootstrap process has exited with code 0; \<^verbatim>\<open>SIGTERM\<close> arrives
  and the halt thread runs. At the end of that polling cycle \<^verbatim>\<open>init_loop\<close> returns 0
  although one service is not \<^verbatim>\<open>DOWN\<close> (it is \<^verbatim>\<open>PENDING_DOWN\<close>): the loop does not run
  another iteration, and the exit of the service is never reaped.
\<close>

theorem halting_leaves_loop_at_once:
  "returned (run [boot_cycle 0, term_cycle]) = Some None
   \<and> services (outcome_state (run [boot_cycle 0, term_cycle])) = [nginx\<lparr>svc_state := 3\<rparr>]
   \<and> service_count_by_state (STATE_DOWN example_header) True
        (services (outcome_state (run [boot_cycle 0, term_cycle]))) = 1
   \<and> WAITPID 200 \<notin> set (trace (outcome_state (run [boot_cycle 0, term_cycle])))"
  unfolding run_term
  by (simp add: returned_def outcome_state_def service_count_by_state_def example_defs)

lemma run_second_thread:
  "run [boot_cycle 0, sigterm_cycle, death_cycle] = FINISHED None
     \<lparr>is_halting = True, boot_pid = 100, halt_thread = 2,
      services = [nginx\<lparr>svc_state := 0\<rparr>], created = 2, not_started = [],
      trace =
        [SPAWN1, SIGNALFD, CONTROL_LISTEN, EPOLL_CREATE1, EPOLL_CTL_ADD 3, EPOLL_CTL_ADD 4,
         EPOLL_WAIT, LOG LOG_DEBUG ''loop'' [], READ_SIGNAL, WAITPID 100,
         LOG LOG_INFO ''Booting completed'' [],
         LOG LOG_INFO ''Reaped zombie PID:%d'' [ARG_INT 100],
         EPOLL_WAIT, LOG LOG_DEBUG ''loop'' [], READ_SIGNAL,
         LOG LOG_DEBUG ''Halting'' [], PTHREAD_CREATE,
         EPOLL_WAIT, LOG LOG_DEBUG ''loop'' [], SET_IS_HALTING,
         LOG LOG_DEBUG ''Running halt action'' [], SPAWN2_WAIT ''halt'', SERVICE_STOP_ALL,
         LOG LOG_WARNING ''Stopping %d outstanding services.'' [ARG_INT 1],
         READ_SIGNAL, WAITPID 200, SERVICE_SET_DOWN 0,
         LOG LOG_ERROR ''Service %s exitted with code %d'' [ARG_STR ''nginx'', ARG_INT 1],
         LOG LOG_DEBUG ''Service exitted with code %d when had status %d, halting''
           [ARG_INT 1, ARG_INT 3],
         PTHREAD_CREATE,
         LOG LOG_INFO ''No more services running, exitting'' [],
         SHUTDOWN 4, UNLINK, LOG LOG_DEBUG ''Waiting for halt thread to exit'' [],
         PTHREAD_JOIN 2]\<rparr>"
  by (simp add: sigterm_cycle_def death_cycle_def run_defs example_defs signal_defs)

text \<open>
  C2 fails on the code. \<^verbatim>\<open>SIGTERM\<close> is read in one polling cycle and the halt thread is
  created. In the next cycle the thread has run and set \<^verbatim>\<open>is_halting\<close>, and the exit of
  the service, told to stop, with code 1 is read. The \<^verbatim>\<open>SIGCHLD\<close> branch calls
  \<^verbatim>\<open>init_halt_thread\<close> without looking at \<^verbatim>\<open>is_halting\<close>: \<^verbatim>\<open>pthread_create\<close> is called a
  second time, two halt threads have been created and \<^verbatim>\<open>halt_thread\<close> holds the handle
  of the second. The flag stays set.
\<close>

theorem second_halt_thread:
  "created (outcome_state (run [boot_cycle 0, sigterm_cycle, death_cycle])) = 2
   \<and> halt_triggers (trace (outcome_state (run [boot_cycle 0, sigterm_cycle, death_cycle]))) = 2
   \<and> halt_thread (outcome_state (run [boot_cycle 0, sigterm_cycle, death_cycle])) = 2
   \<and> is_halting (outcome_state (run [boot_cycle 0, sigterm_cycle, death_cycle]))"
  unfolding run_second_thread
  by (simp add: outcome_state_def halt_triggers_def)

lemma run_boot_failed:
  "run [boot_cycle 2, idle_cycle, idle_cycle] = RUNNING (Some ERROR_EPOLL_SIGNAL)
     \<lparr>is_halting = False, boot_pid = 100, halt_thread = 0,
      services = [nginx], created = 0, not_started = [],
      trace =
        [SPAWN1, SIGNALFD, CONTROL_LISTEN, EPOLL_CREATE1, EPOLL_CTL_ADD 3, EPOLL_CTL_ADD 4,
         EPOLL_WAIT, LOG LOG_DEBUG ''loop'' [], READ_SIGNAL, WAITPID 100,
         LOG LOG_ERROR ''Boot script failed'' [],
         EPOLL_WAIT, LOG LOG_DEBUG ''loop'' [], EPOLL_WAIT, LOG LOG_DEBUG ''loop'' []]\<rparr>"
  by (simp add: idle_cycle_def run_defs example_defs signal_defs)

lemma run_boot_failed_term:
  "run [boot_cycle 2, idle_cycle, term_cycle] = FINISHED (Some ERROR_EPOLL_SIGNAL)
     \<lparr>is_halting = True, boot_pid = 100, halt_thread = 1,
      services = [nginx\<lparr>svc_state := 3\<rparr>], created = 1, not_started = [],
      trace =
        [SPAWN1, SIGNALFD, CONTROL_LISTEN, EPOLL_CREATE1, EPOLL_CTL_ADD 3, EPOLL_CTL_ADD 4,
         EPOLL_WAIT, LOG LOG_DEBUG ''loop'' [], READ_SIGNAL, WAITPID 100,
         LOG LOG_ERROR ''Boot script failed'' [],
         EPOLL_WAIT, LOG LOG_DEBUG ''loop'' [], EPOLL_WAIT, LOG LOG_DEBUG ''loop'' [],
         READ_SIGNAL, LOG LOG_DEBUG ''Halting'' [], PTHREAD_CREATE, SET_IS_HALTING,
         LOG LOG_DEBUG ''Running halt action'' [], SPAWN2_WAIT ''halt'', SERVICE_STOP_ALL,
         LOG LOG_WARNING ''Stopping %d outstanding services.'' [ARG_INT 1],
         SHUTDOWN 4, UNLINK, LOG LOG_DEBUG ''Waiting for halt thread to exit'' [],
         PTHREAD_JOIN 1]\<rparr>"
  by (simp add: idle_cycle_def term_cycle_def run_defs example_defs signal_defs)

text \<open>
  C6 fails on the code. The bootstrap process exits with code 2. The \<^verbatim>\<open>break\<close> that
  follows \<^verbatim>\<open>exit_code = ERROR_EPOLL_SIGNAL\<close> leaves the inner loop only: two polling cycles
  later the process is still in the loop. When \<^verbatim>\<open>SIGTERM\<close> arrives, \<^verbatim>\<open>is_halting\<close> is set,
  the halt action runs, and \<^verbatim>\<open>init_loop\<close> returns the code kept since the failure.
\<close>

theorem boot_failure_keeps_looping:
  "still_running (run [boot_cycle 2, idle_cycle, idle_cycle])
   \<and> returned (run [boot_cycle 2, idle_cycle, term_cycle]) = Some (Some ERROR_EPOLL_SIGNAL)
   \<and> is_halting (outcome_state (run [boot_cycle 2, idle_cycle, term_cycle]))
   \<and> SPAWN2_WAIT ''halt'' \<in> set (trace (outcome_state (run [boot_cycle 2, idle_cycle, term_cycle])))"
  unfolding run_boot_failed run_boot_failed_term
  by (simp add: returned_def still_running_def outcome_state_def)

end
